theory Spec2Isabelle
  imports Complex_Main "HOL-Library.Monad_Syntax"
begin

section \<open>JavaScript values\<close>

text \<open>
  The utility module \<^verbatim>\<open>src/utils.js\<close> inspects its arguments with \<^verbatim>\<open>typeof\<close>,
  \<^verbatim>\<open>Array.isArray\<close> and \<^verbatim>\<open>instanceof Date\<close>, so values keep their run-time kind.
  A number is finite or one of the three non-finite doubles. An object has a class (a plain
  object or a \<^verbatim>\<open>Date\<close> with its time value, \<open>None\<close> for an invalid date) and its
  own enumerable properties, in enumeration order. Values are trees: sharing between
  objects is not represented.
\<close>

datatype jsnum = Finite rat | NaN | PosInf | NegInf

datatype cls = PlainObject | DateObject "int option"

datatype jsval =
    JUndefined
  | JNull
  | JBool bool
  | JNum jsnum
  | JStr string
  | JArr "jsval list"
  | JObj cls "(string \<times> jsval) list"

text \<open>Property read \<^verbatim>\<open>obj[key]\<close> on own properties; anything missing is \<^verbatim>\<open>undefined\<close>.\<close>

fun lookup :: "(string \<times> jsval) list \<Rightarrow> string \<Rightarrow> jsval" where
  "lookup [] k = JUndefined"
| "lookup ((k', v) # ps) k = (if k' = k then v else lookup ps k)"

fun get :: "jsval \<Rightarrow> string \<Rightarrow> jsval" where
  "get (JObj c ps) k = lookup ps k"
| "get v k = JUndefined"

text \<open>Truthiness, as \<^verbatim>\<open>if (x)\<close> and \<^verbatim>\<open>!x\<close> see it.\<close>

fun truthy :: "jsval \<Rightarrow> bool" where
  "truthy JUndefined = False"
| "truthy JNull = False"
| "truthy (JBool b) = b"
| "truthy (JNum n) = (n \<noteq> NaN \<and> n \<noteq> Finite 0)"
| "truthy (JStr s) = (s \<noteq> [])"
| "truthy (JArr xs) = True"
| "truthy (JObj c ps) = True"

text \<open>\<^verbatim>\<open>typeof obj === 'object' && obj === Object(obj) && !Array.isArray(obj)\<close>\<close>

fun isObject :: "jsval \<Rightarrow> bool" where
  "isObject (JObj c ps) = True"
| "isObject v = False"

text \<open>\<^verbatim>\<open>typeof string === 'string' && string.length > 0\<close>\<close>

fun hasText :: "jsval \<Rightarrow> bool" where
  "hasText (JStr s) = (length s > 0)"
| "hasText v = False"

text \<open>Number of array elements or of own keys; 0 for everything else.\<close>

fun size_js :: "jsval \<Rightarrow> nat" where
  "size_js (JArr xs) = length xs"
| "size_js (JObj c ps) = length ps"
| "size_js v = 0"

section \<open>Link selection\<close>

text \<open>
  \<^verbatim>\<open>Array.isArray(links) ? links.find(link => Utils.isObject(link) && Utils.hasText(link.href)
     && link.rel === rel) : null\<close>.
  The relation is a string, so \<^verbatim>\<open>===\<close> holds exactly for the same string.
  \<^verbatim>\<open>find\<close> gives \<^verbatim>\<open>undefined\<close> when no element passes.
\<close>

definition linkMatches :: "string \<Rightarrow> jsval \<Rightarrow> bool" where
  "linkMatches rel link \<longleftrightarrow> isObject link \<and> hasText (get link ''href'') \<and> get link ''rel'' = JStr rel"

fun find_js :: "(jsval \<Rightarrow> bool) \<Rightarrow> jsval list \<Rightarrow> jsval" where
  "find_js P [] = JUndefined"
| "find_js P (x # xs) = (if P x then x else find_js P xs)"

fun getLinkWithRel :: "jsval \<Rightarrow> string \<Rightarrow> jsval" where
  "getLinkWithRel (JArr links) rel = find_js (linkMatches rel) links"
| "getLinkWithRel v rel = JNull"

section \<open>Deep merge\<close>

text \<open>
  \<^verbatim>\<open>Object.assign(target, { [key]: v })\<close>: an existing key keeps its place in the
  enumeration order and gets the new value, a new key goes to the end.
\<close>

fun assign :: "(string \<times> 'a) list \<Rightarrow> string \<Rightarrow> 'a \<Rightarrow> (string \<times> 'a) list" where
  "assign [] k v = [(k, v)]"
| "assign ((k', v') # ps) k v = (if k' = k then (k, v) # ps else (k', v') # assign ps k v)"


text \<open>An object of the program has each key once.\<close>

definition distinctKeys :: "(string \<times> jsval) list \<Rightarrow> bool" where
  "distinctKeys ps \<longleftrightarrow> distinct (map fst ps)"

section \<open>Token search\<close>

text \<open>
  Strings are lists of 8-bit characters; the text handled here is ASCII, so
  \<^verbatim>\<open>toLowerCase\<close> maps \<open>A\<close> to \<open>Z\<close> onto \<open>a\<close> to \<open>z\<close> and \<^verbatim>\<open>\s\<close> is the ASCII white
  space (tab, line feed, vertical tab, form feed, carriage return, space).
\<close>

definition toLowerChar :: "char \<Rightarrow> char" where
  "toLowerChar c =
     (if (65::nat) \<le> of_char c \<and> of_char c \<le> (90::nat) then char_of (of_char c + (32::nat)) else c)"

definition toLowerCase :: "string \<Rightarrow> string" where
  "toLowerCase s = map toLowerChar s"

definition isWhiteSpace :: "char \<Rightarrow> bool" where
  "isWhiteSpace c \<longleftrightarrow> c \<in> set [char_of (9::nat), char_of (10::nat), char_of (11::nat),
                                  char_of (12::nat), char_of (13::nat), CHR '' '']"

text \<open>
  The pattern is \<^verbatim>\<open>/[\s.,;!&({[)}]]+/g\<close>. Its character class is closed by the first
  \<^verbatim>\<open>]\<close>, so the class holds white space and \<^verbatim>\<open>. , ; ! & ( { [ ) }\<close>, and the rest of the
  pattern, \<^verbatim>\<open>]+\<close>, asks for one or more closing brackets after a character of the class.
  \<open>splitCharsClass\<close> is the class, \<open>splitCharsMatch s\<close> the length of the (greedy) match at the
  start of \<open>s\<close>, 0 when there is none.
\<close>

definition splitCharsClass :: "char \<Rightarrow> bool" where
  "splitCharsClass c \<longleftrightarrow> isWhiteSpace c \<or> c \<in> set ''.,;!&({[)}''"

fun splitCharsMatch :: "string \<Rightarrow> nat" where
  "splitCharsMatch (c # d # rest) =
     (if splitCharsClass c \<and> d = CHR '']''
      then 2 + length (takeWhile (\<lambda>x. x = CHR '']'') rest) else 0)"
| "splitCharsMatch s = 0"

text \<open>
  \<^verbatim>\<open>String.prototype.split\<close> with the pattern: the pieces between the matches, found from
  left to right; \<open>cur\<close> is the piece being read, reversed.
\<close>

function splitAt :: "string \<Rightarrow> string \<Rightarrow> string list" where
  "splitAt cur [] = [rev cur]"
| "splitAt cur (c # cs) =
     (if splitCharsMatch (c # cs) > 0
      then rev cur # splitAt [] (drop (splitCharsMatch (c # cs)) (c # cs))
      else splitAt (c # cur) cs)"
  by pat_completeness auto
termination
  by (relation "measure (\<lambda>(cur, s). length s)") auto

definition split_js :: "string \<Rightarrow> string list" where
  "split_js s = splitAt [] s"


text \<open>\<^verbatim>\<open>target.includes(term)\<close>: \<open>term\<close> occurs in \<open>target\<close> as a contiguous run.\<close>

fun startsWith :: "string \<Rightarrow> string \<Rightarrow> bool" where
  "startsWith s [] = True"
| "startsWith [] (p # ps) = False"
| "startsWith (c # cs) (p # ps) = (c = p \<and> startsWith cs ps)"



fun join :: "string \<Rightarrow> string list \<Rightarrow> string" where
  "join sep [] = []"
| "join sep [s] = s"
| "join sep (s # t # ts) = s @ sep @ join sep (t # ts)"



section \<open>The URI library\<close>

text \<open>
  Modelled from the spec: the \<^verbatim>\<open>urijs\<close> package that \<^verbatim>\<open>utils.js\<close> imports is a third-party
  library and is not among the sources. The specification describes a URI as a parsed URL
  with scheme, authority, path, query and fragment, resolved and normalised by standard URL
  syntax. The model below covers URLs written as
  \<^verbatim>\<open>[scheme:][//host[:port]]path[?query][#fragment]\<close>: no user information, no bracketed
  IPv6 host, no repair of malformed input and no percent-recoding of paths. An absent part
  is the empty string. The library keeps the query as text and parses it again on every query
  operation; the model keeps the parsed parameters: each name once, in order, with the list
  of its values, a value being a text or \<open>None\<close> for a name written without \<open>=\<close>.
\<close>

record uri =
  protocol :: string
  hostname :: string
  port :: string
  path :: string
  query :: "(string \<times> string option list) list"
  fragment :: string
  urn :: bool

text \<open>\<open>splitFirst c s\<close> cuts \<open>s\<close> at the first \<open>c\<close>; \<open>None\<close> when \<open>c\<close> does not occur.\<close>

fun splitFirst :: "char \<Rightarrow> string \<Rightarrow> (string \<times> string) option" where
  "splitFirst c [] = None"
| "splitFirst c (x # xs) =
     (if x = c then Some ([], xs)
      else case splitFirst c xs of None \<Rightarrow> None | Some (a, b) \<Rightarrow> Some (x # a, b))"

text \<open>\<open>splitAll c s\<close> is \<^verbatim>\<open>s.split(c)\<close> for a one-character separator.\<close>

fun splitAll :: "char \<Rightarrow> string \<Rightarrow> string list" where
  "splitAll c [] = [[]]"
| "splitAll c (x # xs) =
     (if x = c then [] # splitAll c xs
      else case splitAll c xs of [] \<Rightarrow> [[x]] | s # ss \<Rightarrow> (x # s) # ss)"

definition endsWith :: "string \<Rightarrow> string \<Rightarrow> bool" where
  "endsWith s suffix \<longleftrightarrow> startsWith (rev s) (rev suffix)"

definition isAlpha :: "char \<Rightarrow> bool" where
  "isAlpha c \<longleftrightarrow> (65::nat) \<le> of_char c \<and> of_char c \<le> (90::nat)
                 \<or> (97::nat) \<le> of_char c \<and> of_char c \<le> (122::nat)"

definition isDigit :: "char \<Rightarrow> bool" where
  "isDigit c \<longleftrightarrow> (48::nat) \<le> of_char c \<and> of_char c \<le> (57::nat)"

text \<open>A scheme is a letter followed by letters, digits, \<open>.\<close>, \<open>+\<close> and \<open>-\<close>.\<close>

fun isProtocol :: "string \<Rightarrow> bool" where
  "isProtocol [] = False"
| "isProtocol (c # cs) = (isAlpha c \<and> list_all (\<lambda>x. isAlpha x \<or> isDigit x \<or> x \<in> set ''.+-'') cs)"

text \<open>A port must be a whole number from 1 to 65535; the library throws on any other.\<close>

definition digitsValue :: "string \<Rightarrow> nat" where
  "digitsValue s = foldl (\<lambda>n c. 10 * n + (of_char c - 48)) 0 s"

definition validPort :: "string \<Rightarrow> bool" where
  "validPort p \<longleftrightarrow> p = [] \<or> (list_all isDigit p \<and> 0 < digitsValue p \<and> digitsValue p < 65536)"

text \<open>
  The query text is cut at \<open>&\<close> and each piece at its first \<open>=\<close>; a piece without \<open>=\<close> has
  no value, a repeated name collects its values, \<open>+\<close> stands for a space.
\<close>

definition decodeQuery :: "string \<Rightarrow> string" where
  "decodeQuery s = map (\<lambda>c. if c = CHR ''+'' then CHR '' '' else c) s"

definition addParam ::
  "(string \<times> string option list) list \<Rightarrow> string \<Rightarrow> string option \<Rightarrow> (string \<times> string option list) list" where
  "addParam items name v =
     (case map_of items name of
        None \<Rightarrow> assign items name [v]
      | Some vs \<Rightarrow> assign items name (vs @ [v]))"

definition parseParam ::
  "(string \<times> string option list) list \<Rightarrow> string \<Rightarrow> (string \<times> string option list) list" where
  "parseParam items piece =
     (if piece = [] then items
      else case splitFirst (CHR ''='') piece of
             None \<Rightarrow> addParam items (decodeQuery piece) None
           | Some (name, v) \<Rightarrow> addParam items (decodeQuery name) (Some (decodeQuery v)))"

definition parseQuery :: "string \<Rightarrow> (string \<times> string option list) list" where
  "parseQuery s = foldl parseParam [] (splitAll (CHR ''&'') s)"

text \<open>
  The authority runs to the first \<open>/\<close>; it is a host and, after a colon, a port. A host
  without a path gets the path \<open>/\<close>.
\<close>

definition parseAuthority :: "string \<Rightarrow> uri \<Rightarrow> uri option" where
  "parseAuthority s u =
     (let auth = takeWhile (\<lambda>c. c \<noteq> CHR ''/'') s;
          rest = dropWhile (\<lambda>c. c \<noteq> CHR ''/'') s;
          t = splitAll (CHR '':'') auth;
          h = hd t;
          p = (if length t = 2 then t ! 1 else [])
      in if validPort p
         then Some (u\<lparr>hostname := (if length t \<le> 2 then h else auth), port := p,
                      path := (if rest = [] then ''/'' else rest)\<rparr>)
         else None)"

definition emptyUri :: uri where
  "emptyUri = \<lparr>protocol = [], hostname = [], port = [], path = [], query = [], fragment = [],
               urn = False\<rparr>"

definition parse :: "string \<Rightarrow> uri option" where
  "parse s =
     (let (s1, frag) = (case splitFirst (CHR ''#'') s of None \<Rightarrow> (s, []) | Some (a, b) \<Rightarrow> (a, b));
          (s2, q) = (case splitFirst (CHR ''?'') s1 of None \<Rightarrow> (s1, []) | Some (a, b) \<Rightarrow> (a, b));
          u = emptyUri\<lparr>query := parseQuery q, fragment := frag\<rparr>
      in if startsWith s2 ''//'' then parseAuthority (drop 2 s2) u
         else case splitFirst (CHR '':'') s2 of
                None \<Rightarrow> Some (u\<lparr>path := s2\<rparr>)
              | Some (proto, rest) \<Rightarrow>
                  if proto \<noteq> [] \<and> \<not> isProtocol proto then Some (u\<lparr>path := s2\<rparr>)
                  else if startsWith rest ''//'' then parseAuthority (drop 2 rest) (u\<lparr>protocol := proto\<rparr>)
                  else Some (u\<lparr>protocol := proto, path := rest, urn := True\<rparr>))"

text \<open>
  The constructor \<^verbatim>\<open>URI(x)\<close> parses a string and throws (\<open>None\<close>) on \<open>undefined\<close>,
  \<open>null\<close> and every other value that is not a string; a parts object, which the library
  would also take, is outside the model.
\<close>

fun URI :: "jsval \<Rightarrow> uri option" where
  "URI (JStr s) = parse s"
| "URI v = None"

subsection \<open>Conversion to text\<close>

text \<open>
  How the engine prints a finite number, a date in ISO form (\<^verbatim>\<open>toISOString\<close>) and a date
  as text depends on floating point and on the locale; the three are parameters.
\<close>

record engine =
  numberToString :: "rat \<Rightarrow> string"
  dateToISOString :: "int \<Rightarrow> string"
  dateToString :: "int option \<Rightarrow> string"

text \<open>
  \<open>toStr\<close> is \<^verbatim>\<open>String(v)\<close>, and \<open>joinWith E sep vs\<close> is \<^verbatim>\<open>vs.join(sep)\<close>, which prints
  \<open>null\<close> and \<open>undefined\<close> elements as nothing.
\<close>

fun toStr :: "engine \<Rightarrow> jsval \<Rightarrow> string"
  and joinWith :: "engine \<Rightarrow> string \<Rightarrow> jsval list \<Rightarrow> string" where
  "toStr E JUndefined = ''undefined''"
| "toStr E JNull = ''null''"
| "toStr E (JBool b) = (if b then ''true'' else ''false'')"
| "toStr E (JNum (Finite r)) = numberToString E r"
| "toStr E (JNum NaN) = ''NaN''"
| "toStr E (JNum PosInf) = ''Infinity''"
| "toStr E (JNum NegInf) = ''-Infinity''"
| "toStr E (JStr s) = s"
| "toStr E (JArr vs) = joinWith E '','' vs"
| "toStr E (JObj PlainObject ps) = ''[object Object]''"
| "toStr E (JObj (DateObject t) ps) = dateToString E t"
| "joinWith E sep [] = []"
| "joinWith E sep (v # vs) =
     (if v = JUndefined \<or> v = JNull then [] else toStr E v)
       @ (if vs = [] then [] else sep @ joinWith E sep vs)"

subsection \<open>Reading and writing the parts\<close>

text \<open>
  Modelled from the spec: the accessors of the \<^verbatim>\<open>urijs\<close> library (not among the sources)
  that \<^verbatim>\<open>utils.js\<close> calls, on the parts of a URL in standard syntax.
\<close>

text \<open>\<^verbatim>\<open>uri.is("relative")\<close>: there is no scheme.\<close>

definition isRelative :: "uri \<Rightarrow> bool" where
  "isRelative u \<longleftrightarrow> protocol u = []"

text \<open>\<^verbatim>\<open>uri.path()\<close>: the path, \<open>/\<close> for an empty path after a host.\<close>

definition getPath :: "uri \<Rightarrow> string" where
  "getPath u = (if path u \<noteq> [] then path u else if hostname u \<noteq> [] then ''/'' else [])"

text \<open>\<^verbatim>\<open>uri.path(v)\<close>: an empty path is written as \<open>/\<close> (as nothing for a URN).\<close>

definition setPath :: "uri \<Rightarrow> string \<Rightarrow> uri" where
  "setPath u v = u\<lparr>path := (if v \<noteq> [] then v else if urn u then [] else ''/'')\<rparr>"

text \<open>\<^verbatim>\<open>uri.filename()\<close>: what follows the last \<open>/\<close> of the path.\<close>

definition filename :: "uri \<Rightarrow> string" where
  "filename u =
     (if path u = [] \<or> path u = ''/'' then []
      else rev (takeWhile (\<lambda>c. c \<noteq> CHR ''/'') (rev (path u))))"

text \<open>\<^verbatim>\<open>uri.directory()\<close>: the path without its file name and the slash before it.\<close>

definition directory :: "uri \<Rightarrow> string" where
  "directory u =
     (if urn u then []
      else if path u = [] \<and> hostname u = [] then []
      else if path u = ''/'' then ''/''
      else let res = take (length (path u) - length (filename u) - 1) (path u)
           in if res \<noteq> [] then res else if hostname u \<noteq> [] then ''/'' else [])"

text \<open>
  \<^verbatim>\<open>uri.suffix()\<close>: what follows the last dot of the file name, when that is made of
  letters, digits and \<open>%\<close> only.
\<close>

definition suffix :: "uri \<Rightarrow> string" where
  "suffix u =
     (let f = filename u
      in if CHR ''.'' \<notin> set f then []
         else let s = rev (takeWhile (\<lambda>c. c \<noteq> CHR ''.'') (rev f))
              in if s \<noteq> [] \<and> list_all (\<lambda>c. isAlpha c \<or> isDigit c \<or> c = CHR ''%'') s then s else [])"

subsection \<open>Query parameters\<close>

text \<open>
  Modelled from the spec: the query operations of the \<^verbatim>\<open>urijs\<close> library (not among the
  sources); the specification has \<open>addFiltersToLink\<close> remove a parameter or set it as a plain
  query parameter, a scalar coerced to text.
\<close>

text \<open>\<^verbatim>\<open>uri.removeQuery(name)\<close> drops the parameter of that name.\<close>

definition removeQuery :: "uri \<Rightarrow> string \<Rightarrow> uri" where
  "removeQuery u name = u\<lparr>query := filter (\<lambda>(k, vs). k \<noteq> name) (query u)\<rparr>"

text \<open>
  What the query text keeps of a value stored under a name: \<open>null\<close> and \<open>undefined\<close> give
  the bare name, an array gives one parameter for each of its elements that is not
  \<open>undefined\<close> (a repeated element once), anything else gives its text.
\<close>

fun uniq :: "'a list \<Rightarrow> 'a list" where
  "uniq [] = []"
| "uniq (x # xs) = x # uniq (filter (\<lambda>y. y \<noteq> x) xs)"

fun queryValues :: "engine \<Rightarrow> jsval \<Rightarrow> string option list" where
  "queryValues E JUndefined = [None]"
| "queryValues E JNull = [None]"
| "queryValues E (JArr vs) =
     uniq (map (\<lambda>e. if e = JNull then None else Some (toStr E e)) (filter (\<lambda>e. e \<noteq> JUndefined) vs))"
| "queryValues E v = [Some (toStr E v)]"

text \<open>
  \<^verbatim>\<open>uri.setQuery(name, value)\<close> stores the value under the name;
  \<^verbatim>\<open>uri.setQuery(params)\<close> does so for every property of \<open>params\<close>, where an
  \<open>undefined\<close> value removes the name. A value without any parameter (an empty array)
  leaves no trace of the name in the query text.
\<close>

definition putQuery :: "engine \<Rightarrow> uri \<Rightarrow> string \<Rightarrow> jsval \<Rightarrow> uri" where
  "putQuery E u name v =
     (if queryValues E v = [] then removeQuery u name
      else u\<lparr>query := assign (query u) name (queryValues E v)\<rparr>)"

definition setQuery :: "engine \<Rightarrow> uri \<Rightarrow> string \<Rightarrow> jsval \<Rightarrow> uri" where
  "setQuery E u name v = putQuery E u name (if v \<noteq> JUndefined then v else JNull)"

definition setQueryAll :: "engine \<Rightarrow> uri \<Rightarrow> (string \<times> jsval) list \<Rightarrow> uri" where
  "setQueryAll E u params =
     foldl (\<lambda>u' (k, v). if v = JUndefined then removeQuery u' k else putQuery E u' k v) u params"

subsection \<open>Serialisation\<close>

text \<open>
  Modelled from the spec: \<^verbatim>\<open>toString\<close>, \<^verbatim>\<open>normalize\<close>, \<^verbatim>\<open>absoluteTo\<close> and
  \<^verbatim>\<open>equals\<close> of the \<^verbatim>\<open>urijs\<close> library (not among the sources), by standard URL
  syntax: normalisation collapses \<open>.\<close> and \<open>..\<close> segments and puts scheme and host in
  canonical case, resolution is relative to the directory of the base.

  In the query text letters, digits and \<open>- _ . ~\<close> stand for themselves, a space is
  written \<open>+\<close>, and any other character as \<open>%\<close> with its two hexadecimal digits.
\<close>

definition hexDigit :: "nat \<Rightarrow> char" where
  "hexDigit n = (if n < 10 then char_of (48 + n) else char_of (55 + n))"

definition encodeChar :: "char \<Rightarrow> string" where
  "encodeChar c =
     (if isAlpha c \<or> isDigit c \<or> c \<in> set ''-_.~'' then [c]
      else if c = CHR '' '' then ''+''
      else [CHR ''%'', hexDigit (of_char c div 16), hexDigit (of_char c mod 16)])"

definition encodeQuery :: "string \<Rightarrow> string" where
  "encodeQuery s = concat (map encodeChar s)"

definition buildQueryParameter :: "string \<Rightarrow> string option \<Rightarrow> string" where
  "buildQueryParameter name v =
     encodeQuery name @ (case v of None \<Rightarrow> [] | Some s \<Rightarrow> ''='' @ encodeQuery s)"

definition buildQuery :: "(string \<times> string option list) list \<Rightarrow> string" where
  "buildQuery items =
     join ''&'' (concat (map (\<lambda>(k, vs). map (buildQueryParameter k) (uniq vs)) items))"

text \<open>\<^verbatim>\<open>uri.toString()\<close> puts the parts together.\<close>

definition toString :: "uri \<Rightarrow> string" where
  "toString u =
     (let t = (if protocol u \<noteq> [] then protocol u @ '':'' else []);
          t = t @ (if \<not> urn u \<and> (t \<noteq> [] \<or> hostname u \<noteq> []) then ''//'' else []);
          t = t @ hostname u @ (if hostname u \<noteq> [] \<and> port u \<noteq> [] then '':'' @ port u else []);
          t = t @ (if \<not> startsWith (path u) ''/'' \<and> hostname u \<noteq> [] then ''/'' else []) @ path u;
          q = buildQuery (query u);
          t = t @ (if q \<noteq> [] then ''?'' @ q else [])
      in t @ (if fragment u \<noteq> [] then ''#'' @ fragment u else []))"

subsection \<open>Normalisation\<close>

text \<open>
  The path is normalised segment by segment: a \<open>.\<close> segment and an empty segment inside the
  path go away, a \<open>..\<close> segment takes the segment before it with it (and goes away alone at the
  top), a trailing slash stays, and a path ending in \<open>.\<close> or \<open>..\<close> ends in a slash afterwards.
  A path without a leading slash keeps its leading \<open>..\<close> segments when the URI has no scheme
  and gets a leading slash when it has one.
\<close>

fun resolveParents :: "string list \<Rightarrow> string list \<Rightarrow> string list" where
  "resolveParents stack [] = rev stack"
| "resolveParents stack (s # ss) =
     (if s = ''..'' then resolveParents (tl stack) ss else resolveParents (s # stack) ss)"

definition normalizePathText :: "bool \<Rightarrow> string \<Rightarrow> string" where
  "normalizePathText relativeUri p =
     (let wasRelative = \<not> startsWith p ''/'';
          p1 = (if wasRelative then ''/'' @ p else p);
          p2 = (if endsWith p1 ''/..'' \<or> endsWith p1 ''/.'' then p1 @ ''/'' else p1);
          body = tl (splitAll (CHR ''/'') p2);
          trailing = (last body = []);
          middle = filter (\<lambda>s. s \<noteq> [] \<and> s \<noteq> ''.'') body;
          leadingParents = concat (map (\<lambda>s. s @ ''/'') (takeWhile (\<lambda>s. s = ''..'') middle));
          res = ''/'' @ join ''/'' (resolveParents [] middle @ (if trailing then [[]] else []))
      in if wasRelative \<and> relativeUri then leadingParents @ tl res else res)"

definition normalizePath :: "uri \<Rightarrow> uri" where
  "normalizePath u =
     (if path u = [] \<or> urn u \<or> path u = ''/'' then u
      else u\<lparr>path := normalizePathText (isRelative u) (path u)\<rparr>)"

definition defaultPort :: "string \<Rightarrow> string" where
  "defaultPort proto =
     (if proto = ''http'' \<or> proto = ''ws'' then ''80''
      else if proto = ''https'' \<or> proto = ''wss'' then ''443''
      else if proto = ''ftp'' then ''21''
      else if proto = ''gopher'' then ''70'' else [])"

text \<open>
  \<^verbatim>\<open>uri.normalize()\<close>: scheme and host in lower case, the default port of the scheme
  dropped, the path normalised. (Query and fragment are already held in normal form.)
\<close>

definition normalize :: "uri \<Rightarrow> uri" where
  "normalize u =
     (let u1 = u\<lparr>protocol := toLowerCase (protocol u)\<rparr>;
          u2 = (if urn u1 then u1
                else let h = u1\<lparr>hostname := toLowerCase (hostname u1)\<rparr>
                     in if protocol h \<noteq> [] \<and> port h \<noteq> [] \<and> port h = defaultPort (protocol h)
                        then h\<lparr>port := []\<rparr> else h)
      in normalizePath u2)"

subsection \<open>Resolution and comparison\<close>

text \<open>
  \<^verbatim>\<open>uri.absoluteTo(base)\<close>: a URN cannot be resolved (the library throws); a URI with a
  scheme is returned as it is; one with a host takes only the scheme of the base; otherwise
  scheme and authority come from the base, an empty path takes path and (when its own is
  empty) query of the base, and a path without a leading slash is put into the directory of
  the base and normalised.
\<close>

definition absoluteTo :: "uri \<Rightarrow> uri \<Rightarrow> uri option" where
  "absoluteTo u base =
     (if urn u then None
      else if protocol u \<noteq> [] then Some u
      else if hostname u \<noteq> [] then Some (u\<lparr>protocol := protocol base\<rparr>)
      else let r = u\<lparr>protocol := protocol base, hostname := hostname base, port := port base\<rparr>
           in if path r = []
              then Some (r\<lparr>path := path base,
                           query := (if query r = [] then query base else query r)\<rparr>)
              else let r1 = (if path r = ''..'' then r\<lparr>path := path r @ ''/''\<rparr> else r)
                   in if startsWith (getPath r1) ''/'' then Some r1
                      else let d = directory base;
                               basedir = (if d \<noteq> [] then d
                                          else if startsWith (getPath base) ''/'' then ''/'' else [])
                           in Some (normalizePath
                                (r1\<lparr>path := (if basedir \<noteq> [] then basedir @ ''/'' else []) @ path r1\<rparr>)))"

text \<open>
  \<^verbatim>\<open>one.equals(two)\<close>: both are normalised; they are equal when their texts are, or when
  their texts without the query are and both have the same parameters with the same values,
  in any order.
\<close>

fun sameValues :: "string option list \<Rightarrow> string option list \<Rightarrow> bool" where
  "sameValues [] ys = (ys = [])"
| "sameValues (x # xs) ys = (x \<in> set ys \<and> sameValues xs (remove1 x ys))"

definition sameQuery ::
  "(string \<times> string option list) list \<Rightarrow> (string \<times> string option list) list \<Rightarrow> bool" where
  "sameQuery q1 q2 \<longleftrightarrow>
     list_all (\<lambda>(k, vs). case map_of q2 k of None \<Rightarrow> False | Some ws \<Rightarrow> sameValues (uniq vs) (uniq ws)) q1
     \<and> list_all (\<lambda>(k, ws). k \<in> fst ` set q1) q2"

definition equals :: "uri \<Rightarrow> uri \<Rightarrow> bool" where
  "equals one two =
     (let a = normalize one; b = normalize two
      in toString a = toString b
         \<or> (toString (a\<lparr>query := []\<rparr>) = toString (b\<lparr>query := []\<rparr>) \<and> sameQuery (query a) (query b)))"

section \<open>URL handling\<close>

text \<open>\<^verbatim>\<open>typeof url === 'string' && url.startsWith('/vsi') && !url.startsWith('/vsicurl/')\<close>\<close>

fun isGdalVfsUri :: "jsval \<Rightarrow> bool" where
  "isGdalVfsUri (JStr url) = (startsWith url ''/vsi'' \<and> \<not> startsWith url ''/vsicurl/'')"
| "isGdalVfsUri v = False"

text \<open>
  The first statement of \<open>normalizeUri\<close>: a string that starts with \<^verbatim>\<open>/vsicurl/\<close> loses that
  prefix (\<^verbatim>\<open>href.replace(/^\/vsicurl\//, '')\<close>); every other value stays.
\<close>

fun stripVsicurl :: "jsval \<Rightarrow> jsval" where
  "stripVsicurl (JStr href) =
     (if startsWith href ''/vsicurl/'' then JStr (drop (length ''/vsicurl/'') href) else JStr href)"
| "stripVsicurl v = v"

text \<open>
  The block that makes the URI absolute: the base is parsed, its path gets a trailing slash
  unless it ends in \<open>/\<close> or in \<open>.json\<close>, and the URI is resolved against it.
\<close>

definition resolveAgainst :: "uri \<Rightarrow> jsval \<Rightarrow> uri option" where
  "resolveAgainst u baseUrl =
     do {
       baseUri \<leftarrow> URI baseUrl;
       let baseUriPath = getPath baseUri;
       let baseUri' = (if \<not> endsWith baseUriPath ''/'' \<and> \<not> endsWith baseUriPath ''.json''
                       then setPath baseUri (baseUriPath @ ''/'') else baseUri);
       absoluteTo u baseUri'
     }"

text \<open>What \<open>normalizeUri\<close> returns: the text of the URI or, on request, the URI itself.\<close>

datatype uriResult = Text string | Object uri

text \<open>
  \<open>normalizeUri href baseUrl noParams stringify\<close>; \<open>None\<close> is an exception of the URI
  library passed on to the caller.
\<close>

definition normalizeUri :: "jsval \<Rightarrow> jsval \<Rightarrow> bool \<Rightarrow> bool \<Rightarrow> uriResult option" where
  "normalizeUri href0 baseUrl noParams stringify =
     do {
       let href = stripVsicurl href0;
       uri \<leftarrow> URI href;
       uri \<leftarrow> (if truthy baseUrl \<and> isRelative uri \<and> \<not> isGdalVfsUri href
               then resolveAgainst uri baseUrl else Some uri);
       let uri = normalize uri;
       let uri = (if noParams then uri\<lparr>query := [], fragment := []\<rparr> else uri);
       Some (if stringify then Text (toString uri) else Object uri)
     }"

text \<open>\<^verbatim>\<open>Utils.normalizeUri(href, baseUrl, false, stringify)\<close>\<close>

definition toAbsolute :: "jsval \<Rightarrow> jsval \<Rightarrow> bool \<Rightarrow> uriResult option" where
  "toAbsolute href baseUrl stringify = normalizeUri href baseUrl False stringify"

text \<open>\<^verbatim>\<open>path.replace(/\/$/, '')\<close>: one slash at the end of the text is removed.\<close>

definition stripTrailingSlash :: "string \<Rightarrow> string" where
  "stripTrailingSlash p = (if endsWith p ''/'' then butlast p else p)"

text \<open>
  \<open>equalUrl\<close>: the body of the \<^verbatim>\<open>try\<close> block is \<open>equalUrlBody\<close>; the \<^verbatim>\<open>catch\<close> turns
  every exception into \<open>false\<close>.
\<close>

definition equalUrlBody :: "jsval \<Rightarrow> jsval \<Rightarrow> bool option" where
  "equalUrlBody a b =
     do {
       uri1 \<leftarrow> URI a;
       uri2 \<leftarrow> URI b;
       let uri1 = setPath uri1 (stripTrailingSlash (getPath uri1));
       let uri2 = setPath uri2 (stripTrailingSlash (getPath uri2));
       Some (equals uri1 uri2)
     }"

definition equalUrl :: "jsval \<Rightarrow> jsval \<Rightarrow> bool" where
  "equalUrl a b = (case equalUrlBody a b of Some r \<Rightarrow> r | None \<Rightarrow> False)"

section \<open>Images a browser can display\<close>





text \<open>
  The reading of the specification for a base whose path ends neither in \<open>/\<close> nor in
  \<open>.json\<close>: the URI is resolved against the base with a slash added to its path, normalised,
  stripped of query and fragment on request, and printed.
\<close>

definition resolvedWithSlash :: "uri \<Rightarrow> uri \<Rightarrow> bool \<Rightarrow> uriResult option" where
  "resolvedWithSlash u b noParams =
     do {
       r \<leftarrow> absoluteTo u (setPath b (getPath b @ ''/''));
       let n = normalize r;
       Some (Text (toString (if noParams then n\<lparr>query := [], fragment := []\<rparr> else n)))
     }"

section \<open>Query construction\<close>

text \<open>
  \<open>formatDatetimeQuery\<close>: each element of the array becomes its ISO text when it is a
  \<open>Date\<close>, stays when it is truthy, and becomes \<open>..\<close> otherwise; the elements are joined by
  \<open>/\<close>. \<open>None\<close> is an exception: \<^verbatim>\<open>value.map\<close> does not exist on a value that is not an
  array, and \<^verbatim>\<open>toISOString\<close> throws on an invalid date.
\<close>

fun formatBound :: "engine \<Rightarrow> jsval \<Rightarrow> jsval option" where
  "formatBound E (JObj (DateObject t) ps) =
     (case t of None \<Rightarrow> None | Some ms \<Rightarrow> Some (JStr (dateToISOString E ms)))"
| "formatBound E dt = Some (if truthy dt then dt else JStr ''..'')"

fun formatBounds :: "engine \<Rightarrow> jsval list \<Rightarrow> jsval list option" where
  "formatBounds E [] = Some []"
| "formatBounds E (dt # dts) =
     (case formatBound E dt of
        None \<Rightarrow> None
      | Some b \<Rightarrow> (case formatBounds E dts of None \<Rightarrow> None | Some bs \<Rightarrow> Some (b # bs)))"

fun formatDatetimeQuery :: "engine \<Rightarrow> jsval \<Rightarrow> string option" where
  "formatDatetimeQuery E (JArr vs) = map_option (joinWith E ''/'') (formatBounds E vs)"
| "formatDatetimeQuery E v = None"

text \<open>The \<^verbatim>\<open>typeof\<close> operator and \<^verbatim>\<open>Array.isArray\<close>.\<close>

fun typeof :: "jsval \<Rightarrow> string" where
  "typeof JUndefined = ''undefined''"
| "typeof JNull = ''object''"
| "typeof (JBool b) = ''boolean''"
| "typeof (JNum n) = ''number''"
| "typeof (JStr s) = ''string''"
| "typeof (JArr xs) = ''object''"
| "typeof (JObj c ps) = ''object''"

fun isArray :: "jsval \<Rightarrow> bool" where
  "isArray (JArr xs) = True"
| "isArray v = False"

fun elements :: "jsval \<Rightarrow> jsval list" where
  "elements (JArr xs) = xs"
| "elements v = []"

fun isFiniteNumber :: "jsval \<Rightarrow> bool" where
  "isFiniteNumber (JNum (Finite r)) = True"
| "isFiniteNumber v = False"

text \<open>The test under which \<open>addFiltersToLink\<close> removes the parameter of a filter key.\<close>

definition removesParameter :: "jsval \<Rightarrow> bool" where
  "removesParameter v \<longleftrightarrow>
     v = JNull
     \<or> (typeof v = ''number'' \<and> \<not> isFiniteNumber v)
     \<or> (typeof v = ''string'' \<and> v = JStr [])
     \<or> (typeof v = ''object'' \<and> size_js v = 0)"

text \<open>
  \<^verbatim>\<open>Queryable.formatText\<close> belongs to a module of the repository that is not among the
  sources; it is the parameter \<open>F\<close>, giving the properties of the object it returns for the
  value of the \<open>filters\<close> key.

  \<open>addFilters\<close> is the \<^verbatim>\<open>for (let key in filters)\<close> loop over the properties of the filter
  object that are still to be visited; \<open>None\<close> is an exception of \<open>formatDatetimeQuery\<close>.
\<close>

fun addFilters ::
  "engine \<Rightarrow> (jsval \<Rightarrow> (string \<times> jsval) list) \<Rightarrow> uri \<Rightarrow> (string \<times> jsval) list \<Rightarrow> uri option" where
  "addFilters E F url [] = Some url"
| "addFilters E F url ((key, v) # rest) =
     (if removesParameter v then addFilters E F (removeQuery url key) rest
      else if key = ''datetime'' then
        (case formatDatetimeQuery E v of
           None \<Rightarrow> None
         | Some text \<Rightarrow> addFilters E F (setQuery E url key (JStr text)) rest)
      else if key = ''bbox'' \<and> isArray v then
        addFilters E F (setQuery E url key (JStr (joinWith E '','' (elements v)))) rest
      else if (key = ''collections'' \<or> key = ''ids'') \<and> isArray v then
        addFilters E F (setQuery E url key (JStr (joinWith E '','' (elements v)))) rest
      else if key = ''filters'' then
        addFilters E F (setQueryAll E url (F v)) rest
      else addFilters E F (setQuery E url key v) rest)"

text \<open>The own properties that \<^verbatim>\<open>Object.assign({}, link, ...)\<close> copies from the link.\<close>

fun ownProperties :: "jsval \<Rightarrow> (string \<times> jsval) list" where
  "ownProperties (JObj c ps) = ps"
| "ownProperties v = []"

text \<open>
  \<open>addFiltersToUrl\<close> is the URI built from \<^verbatim>\<open>link.href\<close> after the loop;
  \<open>addFiltersToLink\<close> returns a fresh plain object with the properties of the link and the
  text of that URI as \<open>href\<close>. \<open>None\<close> is an exception (of the URI constructor or of the loop).
\<close>

definition addFiltersToUrl ::
  "engine \<Rightarrow> (jsval \<Rightarrow> (string \<times> jsval) list) \<Rightarrow> jsval \<Rightarrow> (string \<times> jsval) list \<Rightarrow> uri option" where
  "addFiltersToUrl E F link filters =
     do { url \<leftarrow> URI (get link ''href''); addFilters E F url filters }"

definition addFiltersToLink ::
  "engine \<Rightarrow> (jsval \<Rightarrow> (string \<times> jsval) list) \<Rightarrow> jsval \<Rightarrow> (string \<times> jsval) list \<Rightarrow> jsval option" where
  "addFiltersToLink E F link filters =
     do {
       url \<leftarrow> addFiltersToUrl E F link filters;
       Some (JObj PlainObject (assign (ownProperties link) ''href'' (JStr (toString url))))
     }"

text \<open>
  The names of the parameters that the formatter sets for a filter object: those of
  \<open>F v\<close> for the value \<open>v\<close> of its \<open>filters\<close> key, when there is one and it is not removed.
\<close>

definition formatterKeys :: "(jsval \<Rightarrow> (string \<times> jsval) list) \<Rightarrow> (string \<times> jsval) list \<Rightarrow> string set" where
  "formatterKeys F filters =
     (case map_of filters ''filters'' of
        None \<Rightarrow> {}
      | Some v \<Rightarrow> if removesParameter v then {} else fst ` set (F v))"

text \<open>The text of a bound of the \<open>datetime\<close> interval, in the words of the specification.\<close>

fun boundText :: "engine \<Rightarrow> jsval \<Rightarrow> string" where
  "boundText E (JObj (DateObject (Some ms)) ps) = dateToISOString E ms"
| "boundText E v = (if truthy v then toStr E v else ''..'')"

text \<open>
  The filter objects on which the loop raises no exception: a \<open>datetime\<close> value that is not
  removed is an array (an interval given by its bounds) without an invalid \<open>Date\<close>.
\<close>

fun validBound :: "jsval \<Rightarrow> bool" where
  "validBound (JObj (DateObject None) ps) = False"
| "validBound v = True"

fun validInterval :: "jsval \<Rightarrow> bool" where
  "validInterval (JArr vs) = list_all validBound vs"
| "validInterval v = False"

definition datetimeOk :: "(string \<times> jsval) list \<Rightarrow> bool" where
  "datetimeOk filters \<longleftrightarrow>
     list_all (\<lambda>(k, v). k = ''datetime'' \<and> \<not> removesParameter v \<longrightarrow> validInterval v) filters"

section \<open>Properties of link selection\<close>

lemma find_js_none: "(\<forall>x \<in> set xs. \<not> P x) \<Longrightarrow> find_js P xs = JUndefined"
  by (induction xs) auto

lemma find_js_first:
  "i < length xs \<Longrightarrow> P (xs ! i) \<Longrightarrow> (\<forall>j < i. \<not> P (xs ! j)) \<Longrightarrow> find_js P xs = xs ! i"
proof (induction xs arbitrary: i)
  case Nil
  then show ?case by simp
next
  case (Cons x xs)
  show ?case
  proof (cases i)
    case 0
    with Cons.prems show ?thesis by simp
  next
    case (Suc k)
    with Cons.prems have "\<not> P x" by auto
    moreover have "find_js P xs = xs ! k"
      using Cons.prems Suc by (intro Cons.IH) auto
    ultimately show ?thesis using Suc by simp
  qed
qed

text \<open>
  Claim C5. For a list of link values and a relation string, \<open>getLinkWithRel\<close> returns the
  first entry, in input order, that is an object with a non-empty string \<open>href\<close> and whose
  \<open>rel\<close> is exactly the relation; entries of any other shape before it are passed over, and
  when no entry qualifies the result is \<open>undefined\<close> (and \<open>null\<close> when the input is not a
  list at all), never an error.
\<close>

theorem getLinkWithRel_first_match:
  "(\<forall>i < length links.
      linkMatches rel (links ! i) \<and> (\<forall>j < i. \<not> linkMatches rel (links ! j))
        \<longrightarrow> getLinkWithRel (JArr links) rel = links ! i)
   \<and> ((\<forall>l \<in> set links. \<not> linkMatches rel l) \<longrightarrow> getLinkWithRel (JArr links) rel = JUndefined)
   \<and> ((\<forall>ls. v \<noteq> JArr ls) \<longrightarrow> getLinkWithRel v rel = JNull)"
proof (intro conjI allI impI)
  fix i assume "i < length links"
    and "linkMatches rel (links ! i) \<and> (\<forall>j < i. \<not> linkMatches rel (links ! j))"
  then show "getLinkWithRel (JArr links) rel = links ! i"
    by (simp add: find_js_first)
next
  assume "\<forall>l \<in> set links. \<not> linkMatches rel l"
  then show "getLinkWithRel (JArr links) rel = JUndefined"
    by (simp add: find_js_none)
next
  assume "\<forall>ls. v \<noteq> JArr ls"
  then show "getLinkWithRel v rel = JNull"
    by (cases v) auto
qed

theorem getLinkWithRel_first_match_witness:
  "linkMatches ''parent'' ([JObj PlainObject [(''href'', JStr ''a''), (''rel'', JStr ''self'')],
                           JObj PlainObject [(''href'', JStr ''b''), (''rel'', JStr ''parent'')]] ! 1)
   \<and> getLinkWithRel (JArr [JObj PlainObject [(''href'', JStr ''a''), (''rel'', JStr ''self'')],
                           JObj PlainObject [(''href'', JStr ''b''), (''rel'', JStr ''parent'')]]) ''parent''
       = JObj PlainObject [(''href'', JStr ''b''), (''rel'', JStr ''parent'')]
   \<and> getLinkWithRel (JArr [JStr ''x'', JObj PlainObject [(''href'', JStr []), (''rel'', JStr ''self'')]]) ''self''
       = JUndefined
   \<and> getLinkWithRel (JObj PlainObject []) ''self'' = JNull"
  using getLinkWithRel_first_match
          [of "[JObj PlainObject [(''href'', JStr ''a''), (''rel'', JStr ''self'')],
                JObj PlainObject [(''href'', JStr ''b''), (''rel'', JStr ''parent'')]]"
              "''parent''" "JObj PlainObject []"]
        getLinkWithRel_first_match
          [of "[JStr ''x'', JObj PlainObject [(''href'', JStr []), (''rel'', JStr ''self'')]]"
              "''self''" "JNull"]
  by (simp add: linkMatches_def)

section \<open>Properties of the deep merge\<close>














section \<open>Properties of the token search\<close>

lemma splitCharsMatch_no_bracket: "CHR '']'' \<notin> set s \<Longrightarrow> splitCharsMatch s = 0"
  by (cases s rule: splitCharsMatch.cases) auto

lemma splitAt_no_bracket: "CHR '']'' \<notin> set s \<Longrightarrow> splitAt cur s = [rev cur @ s]"
proof (induction s arbitrary: cur)
  case Nil
  then show ?case by simp
next
  case (Cons c cs)
  then have "splitCharsMatch (c # cs) = 0"
    by (intro splitCharsMatch_no_bracket) simp
  with Cons show ?case by simp
qed

lemma split_js_no_bracket: "CHR '']'' \<notin> set s \<Longrightarrow> split_js s = [s]"
  by (simp add: split_js_def splitAt_no_bracket)


section \<open>Properties of URL handling\<close>

lemma startsWith_append: "startsWith (p @ s) p"
  by (induction p) auto

lemma startsWith_iff: "startsWith s p \<longleftrightarrow> (\<exists>r. s = p @ r)"
  by (induction s p rule: startsWith.induct) auto

lemma stripVsicurl_prefix: "stripVsicurl (JStr (''/vsicurl/'' @ rest)) = JStr rest"
  using startsWith_append [of "''/vsicurl/''" rest] by simp

lemma stripVsicurl_other: "\<not> startsWith h ''/vsicurl/'' \<Longrightarrow> stripVsicurl (JStr h) = JStr h"
  by simp

lemma stripTrailingSlash_slash: "stripTrailingSlash (p @ ''/'') = p"
  by (simp add: stripTrailingSlash_def endsWith_def)

lemma directory_slash:
  "\<not> urn b \<Longrightarrow> p \<noteq> [] \<Longrightarrow> directory (b\<lparr>path := p @ ''/''\<rparr>) = p"
  by (simp add: directory_def filename_def)

text \<open>
  Claim C1, as amended. Let the href, after the removal of a \<^verbatim>\<open>/vsicurl/\<close> prefix, parse to
  a relative URI that is not a GDAL virtual file system path, and let the base be given
  (truthy) and parse to a URI whose path ends neither in \<open>/\<close> nor in \<open>.json\<close>. Then
  \<open>normalizeUri\<close> returns the text of the href resolved against the base with a slash added
  to its path; the directory of that base is its whole former path, so its last segment is
  not dropped as a file name. In particular \<^verbatim>\<open>normalizeUri("b.json", "https://ex.com/api/v1.0")\<close>
  is \<^verbatim>\<open>https://ex.com/api/v1.0/b.json\<close>.
\<close>

theorem normalizeUri_trailing_slash:
  assumes "URI (stripVsicurl href) = Some u" and "isRelative u"
    and "\<not> isGdalVfsUri (stripVsicurl href)"
    and "truthy baseUrl" and "URI baseUrl = Some b"
    and "\<not> endsWith (getPath b) ''/''" and "\<not> endsWith (getPath b) ''.json''"
  shows "normalizeUri href baseUrl noParams True = resolvedWithSlash u b noParams
       \<and> (\<not> urn b \<and> getPath b \<noteq> [] \<longrightarrow> directory (setPath b (getPath b @ ''/'')) = getPath b)
       \<and> normalizeUri (JStr ''b.json'') (JStr ''https://ex.com/api/v1.0'') False True
           = Some (Text ''https://ex.com/api/v1.0/b.json'')"
proof (intro conjI)
  show "normalizeUri href baseUrl noParams True = resolvedWithSlash u b noParams"
    using assms
    by (simp add: normalizeUri_def resolveAgainst_def resolvedWithSlash_def Let_def
          split: Option.bind_split)
  show "\<not> urn b \<and> getPath b \<noteq> [] \<longrightarrow> directory (setPath b (getPath b @ ''/'')) = getPath b"
    by (simp add: setPath_def directory_slash)
  show "normalizeUri (JStr ''b.json'') (JStr ''https://ex.com/api/v1.0'') False True
           = Some (Text ''https://ex.com/api/v1.0/b.json'')"
    by code_simp
qed

theorem normalizeUri_trailing_slash_witness:
  "URI (stripVsicurl (JStr ''b.json'')) = Some (emptyUri\<lparr>path := ''b.json''\<rparr>)
   \<and> isRelative (emptyUri\<lparr>path := ''b.json''\<rparr>)
   \<and> \<not> isGdalVfsUri (stripVsicurl (JStr ''b.json''))
   \<and> truthy (JStr ''https://ex.com/api/v1.0'')
   \<and> URI (JStr ''https://ex.com/api/v1.0'')
        = Some (emptyUri\<lparr>protocol := ''https'', hostname := ''ex.com'', path := ''/api/v1.0''\<rparr>)
   \<and> \<not> endsWith (getPath (emptyUri\<lparr>protocol := ''https'', hostname := ''ex.com'', path := ''/api/v1.0''\<rparr>)) ''/''
   \<and> \<not> endsWith (getPath (emptyUri\<lparr>protocol := ''https'', hostname := ''ex.com'', path := ''/api/v1.0''\<rparr>)) ''.json''
   \<and> normalizeUri (JStr ''b.json'') (JStr ''https://ex.com/api/v1.0'') False True
        = resolvedWithSlash (emptyUri\<lparr>path := ''b.json''\<rparr>)
            (emptyUri\<lparr>protocol := ''https'', hostname := ''ex.com'', path := ''/api/v1.0''\<rparr>) False
   \<and> directory (setPath (emptyUri\<lparr>protocol := ''https'', hostname := ''ex.com'', path := ''/api/v1.0''\<rparr>)
                  ''/api/v1.0/'') = ''/api/v1.0''"
proof -
  let ?u = "emptyUri\<lparr>path := ''b.json''\<rparr>"
  let ?b = "emptyUri\<lparr>protocol := ''https'', hostname := ''ex.com'', path := ''/api/v1.0''\<rparr>"
  have h1: "URI (stripVsicurl (JStr ''b.json'')) = Some ?u" by code_simp
  have h2: "isRelative ?u" by code_simp
  have h3: "\<not> isGdalVfsUri (stripVsicurl (JStr ''b.json''))" by code_simp
  have h4: "truthy (JStr ''https://ex.com/api/v1.0'')" by simp
  have h5: "URI (JStr ''https://ex.com/api/v1.0'') = Some ?b" by code_simp
  have h6: "\<not> endsWith (getPath ?b) ''/''" by code_simp
  have h7: "\<not> endsWith (getPath ?b) ''.json''" by code_simp
  have h8: "\<not> urn ?b \<and> getPath ?b \<noteq> []" by code_simp
  have h9: "getPath ?b = ''/api/v1.0''" by code_simp
  from normalizeUri_trailing_slash [OF h1 h2 h3 h4 h5 h6 h7, of False] h8 h9
  have "normalizeUri (JStr ''b.json'') (JStr ''https://ex.com/api/v1.0'') False True
          = resolvedWithSlash ?u ?b False
        \<and> directory (setPath ?b ''/api/v1.0/'') = ''/api/v1.0''"
    by simp
  with h1 h2 h3 h4 h5 h6 h7 show ?thesis by blast
qed

text \<open>
  Claim C1 as it is written covers every relative href. The href \<^verbatim>\<open>/vsizip/data.zip\<close> is
  relative and the base \<^verbatim>\<open>https://ex.com/api/v1.0\<close> has a path of the required kind, yet the
  result is the href itself and not its resolution against the base: the guard
  \<^verbatim>\<open>!Utils.isGdalVfsUri(href)\<close> keeps GDAL paths from being resolved.
\<close>

theorem normalizeUri_gdal_path_unresolved:
  "URI (JStr ''/vsizip/data.zip'') = Some (emptyUri\<lparr>path := ''/vsizip/data.zip''\<rparr>)
   \<and> isRelative (emptyUri\<lparr>path := ''/vsizip/data.zip''\<rparr>)
   \<and> URI (JStr ''https://ex.com/api/v1.0'')
        = Some (emptyUri\<lparr>protocol := ''https'', hostname := ''ex.com'', path := ''/api/v1.0''\<rparr>)
   \<and> \<not> endsWith (getPath (emptyUri\<lparr>protocol := ''https'', hostname := ''ex.com'', path := ''/api/v1.0''\<rparr>)) ''/''
   \<and> \<not> endsWith (getPath (emptyUri\<lparr>protocol := ''https'', hostname := ''ex.com'', path := ''/api/v1.0''\<rparr>)) ''.json''
   \<and> normalizeUri (JStr ''/vsizip/data.zip'') (JStr ''https://ex.com/api/v1.0'') False True
        = Some (Text ''/vsizip/data.zip'')
   \<and> resolvedWithSlash (emptyUri\<lparr>path := ''/vsizip/data.zip''\<rparr>)
        (emptyUri\<lparr>protocol := ''https'', hostname := ''ex.com'', path := ''/api/v1.0''\<rparr>) False
        = Some (Text ''https://ex.com/vsizip/data.zip'')
   \<and> normalizeUri (JStr ''/vsizip/data.zip'') (JStr ''https://ex.com/api/v1.0'') False True
        \<noteq> resolvedWithSlash (emptyUri\<lparr>path := ''/vsizip/data.zip''\<rparr>)
            (emptyUri\<lparr>protocol := ''https'', hostname := ''ex.com'', path := ''/api/v1.0''\<rparr>) False"
  by code_simp


lemma normalizeUri_base_irrelevant:
  "isGdalVfsUri (stripVsicurl href) \<Longrightarrow> normalizeUri href b n s = normalizeUri href b' n s"
  by (simp add: normalizeUri_def)

text \<open>
  Claim C2. A \<^verbatim>\<open>/vsicurl/\<close> prefix is removed first, so that the call gives what it gives
  for the wrapped URL; an href that starts with \<^verbatim>\<open>/vsi\<close> but not with \<^verbatim>\<open>/vsicurl/\<close> is
  never resolved: the result does not depend on the base and is the normalised href.
\<close>

theorem normalizeUri_vsi_paths:
  "stripVsicurl (JStr (''/vsicurl/'' @ rest)) = JStr rest
   \<and> (\<not> startsWith rest ''/vsicurl/''
        \<longrightarrow> normalizeUri (JStr (''/vsicurl/'' @ rest)) b n s = normalizeUri (JStr rest) b n s)
   \<and> (startsWith h ''/vsi'' \<and> \<not> startsWith h ''/vsicurl/''
        \<longrightarrow> normalizeUri (JStr h) b n s = normalizeUri (JStr h) JNull n s
          \<and> normalizeUri (JStr h) b False True
              = map_option (\<lambda>u. Text (toString (normalize u))) (parse h))
   \<and> normalizeUri (JStr ''/vsicurl/https://x.com/a.tif'') JNull False True
        = Some (Text ''https://x.com/a.tif'')
   \<and> normalizeUri (JStr ''/vsizip/data.zip'') (JStr ''https://ex.com/'') False True
        = Some (Text ''/vsizip/data.zip'')"
proof (intro conjI impI)
  show "stripVsicurl (JStr (''/vsicurl/'' @ rest)) = JStr rest"
    by (rule stripVsicurl_prefix)
next
  assume "\<not> startsWith rest ''/vsicurl/''"
  then have "stripVsicurl (JStr rest) = JStr rest" by simp
  then show "normalizeUri (JStr (''/vsicurl/'' @ rest)) b n s = normalizeUri (JStr rest) b n s"
    unfolding normalizeUri_def by (simp only: stripVsicurl_prefix)
next
  assume h: "startsWith h ''/vsi'' \<and> \<not> startsWith h ''/vsicurl/''"
  then have g: "isGdalVfsUri (stripVsicurl (JStr h))" by simp
  then show "normalizeUri (JStr h) b n s = normalizeUri (JStr h) JNull n s"
    by (rule normalizeUri_base_irrelevant)
  from h g show "normalizeUri (JStr h) b False True
              = map_option (\<lambda>u. Text (toString (normalize u))) (parse h)"
    by (cases "parse h") (simp_all add: normalizeUri_def)
next
  show "normalizeUri (JStr ''/vsicurl/https://x.com/a.tif'') JNull False True
        = Some (Text ''https://x.com/a.tif'')"
    by code_simp
next
  show "normalizeUri (JStr ''/vsizip/data.zip'') (JStr ''https://ex.com/'') False True
        = Some (Text ''/vsizip/data.zip'')"
    by code_simp
qed

theorem normalizeUri_vsi_paths_witness:
  "\<not> startsWith ''https://x.com/a.tif'' ''/vsicurl/''
   \<and> normalizeUri (JStr (''/vsicurl/'' @ ''https://x.com/a.tif'')) (JStr ''https://ex.com/'') False True
       = normalizeUri (JStr ''https://x.com/a.tif'') (JStr ''https://ex.com/'') False True
   \<and> startsWith ''/vsizip/data.zip'' ''/vsi'' \<and> \<not> startsWith ''/vsizip/data.zip'' ''/vsicurl/''
   \<and> normalizeUri (JStr ''/vsizip/data.zip'') (JStr ''https://ex.com/'') False True
       = normalizeUri (JStr ''/vsizip/data.zip'') JNull False True"
  using normalizeUri_vsi_paths
          [of "''https://x.com/a.tif''" "JStr ''https://ex.com/''" False True "''/vsizip/data.zip''"]
  by simp

lemma equalUrl_parsed:
  "URI a = Some u1 \<Longrightarrow> URI b = Some u2 \<Longrightarrow>
   equalUrl a b = equals (setPath u1 (stripTrailingSlash (getPath u1)))
                         (setPath u2 (stripTrailingSlash (getPath u2)))"
  by (simp add: equalUrl_def equalUrlBody_def)

lemma equalUrl_unparsed: "URI a = None \<or> URI b = None \<Longrightarrow> equalUrl a b = False"
  by (auto simp: equalUrl_def equalUrlBody_def split: Option.bind_split)

text \<open>
  Claim C7. \<open>equalUrl\<close> is \<open>false\<close> when either input is refused by the URI constructor
  (the exception is caught, none escapes: the function is total); otherwise it compares,
  by the library's equivalence, the two URIs after one trailing slash, if any, has been
  taken from each path. The two examples of the specification evaluate as stated.
\<close>

theorem equalUrl_ignores_one_trailing_slash:
  "(URI a = None \<or> URI b = None \<longrightarrow> equalUrl a b = False)
   \<and> (URI a = Some u1 \<and> URI b = Some u2
        \<longrightarrow> equalUrl a b = equals (setPath u1 (stripTrailingSlash (getPath u1)))
                                   (setPath u2 (stripTrailingSlash (getPath u2))))
   \<and> stripTrailingSlash (p @ ''/'') = p
   \<and> (\<not> endsWith p ''/'' \<longrightarrow> stripTrailingSlash p = p)
   \<and> equalUrl (JStr ''https://ex.com/a/'') (JStr ''https://ex.com/a'') = True
   \<and> equalUrl (JStr ''https://ex.com/a'') (JStr ''https://ex.com/b'') = False"
proof (intro conjI impI)
  assume "URI a = None \<or> URI b = None"
  then show "equalUrl a b = False" by (rule equalUrl_unparsed)
next
  assume "URI a = Some u1 \<and> URI b = Some u2"
  then show "equalUrl a b = equals (setPath u1 (stripTrailingSlash (getPath u1)))
                                   (setPath u2 (stripTrailingSlash (getPath u2)))"
    by (simp add: equalUrl_parsed)
next
  show "stripTrailingSlash (p @ ''/'') = p" by (rule stripTrailingSlash_slash)
next
  assume "\<not> endsWith p ''/''"
  then show "stripTrailingSlash p = p" by (simp add: stripTrailingSlash_def)
next
  show "equalUrl (JStr ''https://ex.com/a/'') (JStr ''https://ex.com/a'') = True" by code_simp
next
  show "equalUrl (JStr ''https://ex.com/a'') (JStr ''https://ex.com/b'') = False" by code_simp
qed

theorem equalUrl_ignores_one_trailing_slash_witness:
  "URI (JStr ''https://ex.com:x/a'') = None
   \<and> equalUrl (JStr ''https://ex.com:x/a'') (JStr ''https://ex.com:x/a'') = False
   \<and> equalUrl JNull (JStr ''https://ex.com/a'') = False
   \<and> URI (JStr ''https://ex.com/a//'') = Some (emptyUri\<lparr>protocol := ''https'', hostname := ''ex.com'', path := ''/a//''\<rparr>)
   \<and> URI (JStr ''https://ex.com/a'') = Some (emptyUri\<lparr>protocol := ''https'', hostname := ''ex.com'', path := ''/a''\<rparr>)
   \<and> equalUrl (JStr ''https://ex.com/a//'') (JStr ''https://ex.com/a'')
       = equals (emptyUri\<lparr>protocol := ''https'', hostname := ''ex.com'', path := ''/a/''\<rparr>)
                (emptyUri\<lparr>protocol := ''https'', hostname := ''ex.com'', path := ''/a''\<rparr>)
   \<and> equalUrl (JStr ''https://ex.com/a//'') (JStr ''https://ex.com/a'') = False
   \<and> \<not> endsWith ''/a'' ''/'' \<and> stripTrailingSlash ''/a'' = ''/a''"
proof -
  let ?u1 = "emptyUri\<lparr>protocol := ''https'', hostname := ''ex.com'', path := ''/a//''\<rparr>"
  let ?u2 = "emptyUri\<lparr>protocol := ''https'', hostname := ''ex.com'', path := ''/a''\<rparr>"
  have n: "URI (JStr ''https://ex.com:x/a'') = None" by code_simp
  have p1: "URI (JStr ''https://ex.com/a//'') = Some ?u1" by code_simp
  have p2: "URI (JStr ''https://ex.com/a'') = Some ?u2" by code_simp
  have e: "\<not> endsWith ''/a'' ''/''" by code_simp
  have s1: "setPath ?u1 (stripTrailingSlash (getPath ?u1))
              = emptyUri\<lparr>protocol := ''https'', hostname := ''ex.com'', path := ''/a/''\<rparr>" by code_simp
  have s2: "setPath ?u2 (stripTrailingSlash (getPath ?u2)) = ?u2" by code_simp
  have f: "equalUrl (JStr ''https://ex.com/a//'') (JStr ''https://ex.com/a'') = False" by code_simp
  note t1 = equalUrl_ignores_one_trailing_slash
              [of "JStr ''https://ex.com:x/a''" "JStr ''https://ex.com:x/a''" ?u1 ?u2 "''/a''"]
  note t2 = equalUrl_ignores_one_trailing_slash
              [of "JNull" "JStr ''https://ex.com/a''" ?u1 ?u2 "''/a''"]
  note t3 = equalUrl_ignores_one_trailing_slash
              [of "JStr ''https://ex.com/a//''" "JStr ''https://ex.com/a''" ?u1 ?u2 "''/a''"]
  from t1 n have a1: "equalUrl (JStr ''https://ex.com:x/a'') (JStr ''https://ex.com:x/a'') = False"
    by blast
  from t2 have a2: "equalUrl JNull (JStr ''https://ex.com/a'') = False" by simp
  from t3 p1 p2 have a3: "equalUrl (JStr ''https://ex.com/a//'') (JStr ''https://ex.com/a'')
       = equals (setPath ?u1 (stripTrailingSlash (getPath ?u1))) (setPath ?u2 (stripTrailingSlash (getPath ?u2)))"
    by blast
  from t3 e have a4: "stripTrailingSlash ''/a'' = ''/a''" by blast
  from n a1 a2 a3 a4 p1 p2 e f s1 s2 show ?thesis by simp
qed

section \<open>Properties of the image decision\<close>



section \<open>Properties of the query construction\<close>

lemma map_of_assign: "map_of (assign q k v) k' = (if k' = k then Some v else map_of q k')"
  by (induction q) auto

lemma map_of_removeQuery:
  "map_of (query (removeQuery u k)) k' = (if k' = k then None else map_of (query u) k')"
proof -
  have "map_of (filter (\<lambda>(a, vs). a \<noteq> k) q) k' = (if k' = k then None else map_of q k')" for q :: "(string \<times> string option list) list"
    by (induction q) auto
  then show ?thesis by (simp add: removeQuery_def)
qed

lemma map_of_putQuery:
  "map_of (query (putQuery E u k v)) k' =
     (if k' = k then (if queryValues E v = [] then None else Some (queryValues E v))
      else map_of (query u) k')"
  by (simp add: putQuery_def map_of_removeQuery map_of_assign)

lemma map_of_setQuery_other:
  "k' \<noteq> k \<Longrightarrow> map_of (query (setQuery E u k v)) k' = map_of (query u) k'"
  by (simp add: setQuery_def map_of_putQuery)

lemma map_of_setQuery_text:
  "map_of (query (setQuery E u k (JStr s))) k = Some [Some s]"
  by (simp add: setQuery_def map_of_putQuery)

lemma map_of_setQueryAll_other:
  "k \<notin> fst ` set params \<Longrightarrow> map_of (query (setQueryAll E u params)) k = map_of (query u) k"
proof (induction params arbitrary: u)
  case Nil
  then show ?case by (simp add: setQueryAll_def)
next
  case (Cons p ps)
  obtain k' v where p: "p = (k', v)" by (cases p)
  with Cons.prems have ne: "k \<noteq> k'" and rest: "k \<notin> fst ` set ps" by auto
  let ?u = "if v = JUndefined then removeQuery u k' else putQuery E u k' v"
  have "setQueryAll E u (p # ps) = setQueryAll E ?u ps"
    by (simp add: setQueryAll_def p)
  moreover have "map_of (query ?u) k = map_of (query u) k"
    using ne by (simp add: map_of_removeQuery map_of_putQuery)
  ultimately show ?case using Cons.IH [OF rest, of ?u] by simp
qed

lemma formatterKeys_Cons:
  "distinctKeys ((key, v) # rest) \<Longrightarrow>
   formatterKeys F ((key, v) # rest) =
     (if key = ''filters'' then (if removesParameter v then {} else fst ` set (F v))
      else formatterKeys F rest)"
proof -
  assume d: "distinctKeys ((key, v) # rest)"
  then have "key = ''filters'' \<Longrightarrow> map_of rest ''filters'' = None"
    by (auto simp: distinctKeys_def map_of_eq_None_iff)
  then show ?thesis by (auto simp: formatterKeys_def)
qed

text \<open>One step of the loop leaves every parameter alone that is neither the key of the step
  nor set by the formatter.\<close>

lemma addFilters_frame:
  "addFilters E F url filters = Some url' \<Longrightarrow> distinctKeys filters \<Longrightarrow>
   k \<notin> fst ` set filters \<Longrightarrow> k \<notin> formatterKeys F filters \<Longrightarrow>
   map_of (query url') k = map_of (query url) k"
proof (induction filters arbitrary: url)
  case Nil
  then show ?case by simp
next
  case (Cons p rest)
  obtain key v where p: "p = (key, v)" by (cases p)
  from Cons.prems p have ne: "k \<noteq> key" and nrest: "k \<notin> fst ` set rest"
    and drest: "distinctKeys rest" by (auto simp: distinctKeys_def)
  from Cons.prems(2,4) p have fk: "k \<notin> formatterKeys F rest \<or> key = ''filters''"
    and fk': "key = ''filters'' \<Longrightarrow> \<not> removesParameter v \<Longrightarrow> k \<notin> fst ` set (F v)"
    by (auto simp: formatterKeys_Cons split: if_splits)
  have fr: "k \<notin> formatterKeys F rest"
  proof (cases "key = ''filters''")
    case True
    with Cons.prems(2) p have "map_of rest ''filters'' = None"
      by (auto simp: distinctKeys_def map_of_eq_None_iff)
    then show ?thesis by (simp add: formatterKeys_def)
  next
    case False
    with fk show ?thesis by simp
  qed
  from Cons.prems(1) p obtain url1 where
    step: "addFilters E F url1 rest = Some url'" and
    same: "map_of (query url1) k = map_of (query url) k"
    using ne fk'
    by (auto simp: map_of_removeQuery map_of_setQuery_other map_of_setQueryAll_other
             split: if_splits option.splits)
  from Cons.IH [OF step drest nrest fr] same show ?case by simp
qed


lemma addFilters_append:
  "addFilters E F url (xs @ ys) = Option.bind (addFilters E F url xs) (\<lambda>u. addFilters E F u ys)"
proof (induction xs arbitrary: url)
  case Nil
  then show ?case by simp
next
  case (Cons p xs)
  obtain key v where p: "p = (key, v)" by (cases p)
  show ?case unfolding p by (simp add: Cons.IH split: option.splits)
qed

lemma formatterKeys_suffix:
  assumes "distinctKeys (pre @ post)"
  shows "formatterKeys F post \<subseteq> formatterKeys F (pre @ post)"
proof (cases "map_of post ''filters''")
  case None
  then show ?thesis by (simp add: formatterKeys_def)
next
  case (Some v)
  then have "''filters'' \<in> fst ` set post"
    using map_of_eq_None_iff [of post "''filters''"] by auto
  with assms have "''filters'' \<notin> fst ` set pre" by (auto simp: distinctKeys_def)
  then have "map_of pre ''filters'' = None" by (simp add: map_of_eq_None_iff)
  with Some have "map_of (pre @ post) ''filters'' = Some v" by (simp add: map_add_def)
  with Some show ?thesis by (simp add: formatterKeys_def)
qed

lemma formatBound_valid:
  "validBound v \<Longrightarrow>
   \<exists>b. formatBound E v = Some b \<and> b \<noteq> JUndefined \<and> b \<noteq> JNull \<and> toStr E b = boundText E v"
proof (cases v)
  case (JObj c ps)
  assume "validBound v"
  with JObj show ?thesis
    by (cases c; cases "case c of DateObject t \<Rightarrow> t | _ \<Rightarrow> None") auto
qed auto

lemma formatBounds_valid:
  "list_all validBound vs \<Longrightarrow>
   \<exists>bs. formatBounds E vs = Some bs \<and> length bs = length vs
        \<and> joinWith E sep bs = join sep (map (boundText E) vs)"
proof (induction vs)
  case Nil
  then show ?case by simp
next
  case (Cons v vs)
  then obtain bs where bs: "formatBounds E vs = Some bs" and l: "length bs = length vs"
    and j: "joinWith E sep bs = join sep (map (boundText E) vs)" by auto
  from Cons.prems have "validBound v" by simp
  from formatBound_valid [OF this, of E]
  obtain b where b: "formatBound E v = Some b" and nb: "b \<noteq> JUndefined" "b \<noteq> JNull"
    and tb: "toStr E b = boundText E v" by blast
  have "joinWith E sep (b # bs) = join sep (map (boundText E) (v # vs))"
  proof (cases vs)
    case Nil
    with l nb tb show ?thesis by simp
  next
    case (Cons w ws)
    with l have "bs \<noteq> []" by auto
    with nb tb j Cons show ?thesis by simp
  qed
  with b bs l show ?case by simp
qed

lemma formatDatetimeQuery_valid:
  "validInterval v \<Longrightarrow>
   \<exists>vs. v = JArr vs \<and> formatDatetimeQuery E v = Some (join ''/'' (map (boundText E) vs))"
proof (cases v)
  case (JArr vs)
  assume "validInterval v"
  with JArr have "list_all validBound vs" by simp
  from formatBounds_valid [OF this, of E "''/''"] JArr show ?thesis by auto
qed auto

lemma addFilters_total:
  "datetimeOk filters \<Longrightarrow> \<exists>url'. addFilters E F url filters = Some url'"
proof (induction filters arbitrary: url)
  case Nil
  then show ?case by simp
next
  case (Cons p rest)
  obtain key v where p: "p = (key, v)" by (cases p)
  from Cons.prems p have ok: "datetimeOk rest"
    and dt: "key = ''datetime'' \<Longrightarrow> \<not> removesParameter v \<Longrightarrow> validInterval v"
    by (auto simp: datetimeOk_def)
  note IH = Cons.IH [OF ok]
  show ?case
  proof (cases "\<not> removesParameter v \<and> key = ''datetime''")
    case True
    then obtain t where "formatDatetimeQuery E v = Some t"
      using formatDatetimeQuery_valid [OF dt, of E] by auto
    with True IH [of "setQuery E url key (JStr t)"] show ?thesis
      unfolding p by simp
  next
    case False
    then show ?thesis
      unfolding p using IH by auto
  qed
qed


lemma addFilters_key:
  assumes "addFilters E F url filters = Some url'" and "distinctKeys filters"
    and "(k, v) \<in> set filters" and "k \<notin> formatterKeys F filters"
  shows "\<exists>u1 u2. addFilters E F u1 [(k, v)] = Some u2 \<and> map_of (query url') k = map_of (query u2) k"
proof -
  from assms(3) obtain pre post where f: "filters = pre @ (k, v) # post"
    by (meson split_list)
  from assms(1) f obtain u1 where u1: "addFilters E F url pre = Some u1"
    and r1: "addFilters E F u1 ((k, v) # post) = Some url'"
    by (auto simp: addFilters_append split: Option.bind_splits)
  from r1 have "addFilters E F u1 ([(k, v)] @ post) = Some url'" by simp
  then obtain u2 where u2: "addFilters E F u1 [(k, v)] = Some u2"
    and r2: "addFilters E F u2 post = Some url'"
    unfolding addFilters_append [of E F u1 "[(k, v)]" post]
    by (auto split: Option.bind_splits)
  from assms(2) f have d: "distinctKeys post" and n: "k \<notin> fst ` set post"
    by (auto simp: distinctKeys_def)
  from assms(2) f have "distinctKeys ((pre @ [(k, v)]) @ post)" by simp
  from formatterKeys_suffix [OF this, of F] f assms(4) have "k \<notin> formatterKeys F post" by auto
  from addFilters_frame [OF r2 d n this] u2 show ?thesis by blast
qed

lemma step_removed:
  "removesParameter v \<Longrightarrow> addFilters E F u1 [(k, v)] = Some u2 \<Longrightarrow> map_of (query u2) k = None"
  by (auto simp: map_of_removeQuery)

lemma step_datetime:
  "\<not> removesParameter v \<Longrightarrow> addFilters E F u1 [(''datetime'', v)] = Some u2 \<Longrightarrow>
   \<exists>t. formatDatetimeQuery E v = Some t \<and> map_of (query u2) ''datetime'' = Some [Some t]"
  by (auto simp: map_of_setQuery_text split: option.splits)

lemma step_joined:
  "\<not> removesParameter v \<Longrightarrow> k = ''bbox'' \<or> k = ''collections'' \<or> k = ''ids'' \<Longrightarrow> isArray v \<Longrightarrow>
   addFilters E F u1 [(k, v)] = Some u2 \<Longrightarrow>
   map_of (query u2) k = Some [Some (joinWith E '','' (elements v))]"
  by (auto simp: map_of_setQuery_text)

lemma removesParameter_iff:
  "removesParameter v \<longleftrightarrow>
     v = JNull \<or> v = JNum NaN \<or> v = JNum PosInf \<or> v = JNum NegInf \<or> v = JStr []
     \<or> v = JArr [] \<or> (\<exists>c. v = JObj c [])"
proof (cases v)
  case (JNum n)
  then show ?thesis by (cases n) (auto simp: removesParameter_def)
qed (auto simp: removesParameter_def)

lemma addFiltersToUrl_total:
  "URI (get link ''href'') = Some url0 \<Longrightarrow> datetimeOk filters \<Longrightarrow>
   \<exists>url. addFiltersToUrl E F link filters = Some url"
  using addFilters_total [of filters E F url0] by (simp add: addFiltersToUrl_def)

text \<open>
  Claim C3, as amended. Let the \<open>href\<close> of the link parse, let the filter object have each
  key once, and let its \<open>datetime\<close> value, if kept, be an array (an interval given by its
  bounds) without an invalid date. Then \<open>addFiltersToLink\<close> returns a link whose \<open>href\<close> is
  the text of a URI in which, for every filter key that the formatter of the \<open>filters\<close> key
  does not set: the parameter is absent when the value is \<open>null\<close>, a number that is not
  finite, the empty string, an empty array or an object without properties; \<open>datetime\<close> is
  the bounds joined by \<open>/\<close>, a \<open>Date\<close> as its ISO text and a missing (falsy) bound as
  \<open>..\<close>; and \<open>bbox\<close>, \<open>collections\<close> and \<open>ids\<close>, when arrays, are their elements joined by
  commas.
\<close>

theorem addFiltersToLink_serialises_filters:
  assumes "URI (get link ''href'') = Some url0" and "distinctKeys filters" and "datetimeOk filters"
  shows "\<exists>url. addFiltersToUrl E F link filters = Some url
     \<and> addFiltersToLink E F link filters
         = Some (JObj PlainObject (assign (ownProperties link) ''href'' (JStr (toString url))))
     \<and> (\<forall>k v. (k, v) \<in> set filters \<and> k \<notin> formatterKeys F filters \<longrightarrow>
           ((v = JNull \<or> v = JNum NaN \<or> v = JNum PosInf \<or> v = JNum NegInf \<or> v = JStr []
               \<or> v = JArr [] \<or> (\<exists>c. v = JObj c []))
              \<longrightarrow> map_of (query url) k = None)
         \<and> (k = ''datetime'' \<and> \<not> removesParameter v
              \<longrightarrow> (\<exists>vs. v = JArr vs
                    \<and> map_of (query url) k = Some [Some (join ''/'' (map (boundText E) vs))]))
         \<and> ((k = ''bbox'' \<or> k = ''collections'' \<or> k = ''ids'') \<and> \<not> removesParameter v \<and> isArray v
              \<longrightarrow> map_of (query url) k = Some [Some (joinWith E '','' (elements v))]))"
proof -
  from addFiltersToUrl_total [OF assms(1,3), of E F]
  obtain url where url: "addFiltersToUrl E F link filters = Some url" by blast
  with assms(1) have loop: "addFilters E F url0 filters = Some url"
    by (simp add: addFiltersToUrl_def)
  have link: "addFiltersToLink E F link filters
         = Some (JObj PlainObject (assign (ownProperties link) ''href'' (JStr (toString url))))"
    using url by (simp add: addFiltersToLink_def)
  have keys: "((v = JNull \<or> v = JNum NaN \<or> v = JNum PosInf \<or> v = JNum NegInf \<or> v = JStr []
               \<or> v = JArr [] \<or> (\<exists>c. v = JObj c []))
              \<longrightarrow> map_of (query url) k = None)
         \<and> (k = ''datetime'' \<and> \<not> removesParameter v
              \<longrightarrow> (\<exists>vs. v = JArr vs
                    \<and> map_of (query url) k = Some [Some (join ''/'' (map (boundText E) vs))]))
         \<and> ((k = ''bbox'' \<or> k = ''collections'' \<or> k = ''ids'') \<and> \<not> removesParameter v \<and> isArray v
              \<longrightarrow> map_of (query url) k = Some [Some (joinWith E '','' (elements v))])"
    if kv: "(k, v) \<in> set filters" and nf: "k \<notin> formatterKeys F filters" for k v
  proof -
    from addFilters_key [OF loop assms(2) kv nf]
    obtain u1 u2 where st: "addFilters E F u1 [(k, v)] = Some u2"
      and q: "map_of (query url) k = map_of (query u2) k" by blast
    have a: "map_of (query url) k = None" if "removesParameter v"
      using step_removed [OF that st] q by simp
    have b: "\<exists>vs. v = JArr vs
                    \<and> map_of (query url) k = Some [Some (join ''/'' (map (boundText E) vs))]"
      if "k = ''datetime''" "\<not> removesParameter v"
    proof -
      from assms(3) kv that have "validInterval v"
        by (auto simp: datetimeOk_def list_all_iff)
      from formatDatetimeQuery_valid [OF this, of E]
      obtain vs where v: "v = JArr vs"
        and f: "formatDatetimeQuery E v = Some (join ''/'' (map (boundText E) vs))" by blast
      from step_datetime [OF that(2), of E F u1 u2] st that(1) f q v show ?thesis by auto
    qed
    have c: "map_of (query url) k = Some [Some (joinWith E '','' (elements v))]"
      if "k = ''bbox'' \<or> k = ''collections'' \<or> k = ''ids''" "\<not> removesParameter v" "isArray v"
      using step_joined [OF that(2) that(1) that(3) st] q by simp
    from a b c show ?thesis unfolding removesParameter_iff [symmetric] by blast
  qed
  from url link keys show ?thesis by blast
qed


theorem addFiltersToLink_serialises_filters_witness:
  "URI (get (JObj PlainObject [(''href'', JStr ''https://ex.com?x=1&limit=5''), (''rel'', JStr ''search'')]) ''href'')
     = Some (emptyUri\<lparr>hostname := ''ex.com'', protocol := ''https'', path := ''/'',
                     query := [(''x'', [Some ''1'']), (''limit'', [Some ''5''])]\<rparr>)
   \<and> distinctKeys [(''bbox'', JArr [JNum (Finite 1), JNum (Finite 2), JNum (Finite 3), JNum (Finite 4)]),
                    (''limit'', JNull),
                    (''datetime'', JArr [JObj (DateObject (Some 0)) [], JNull])]
   \<and> datetimeOk [(''bbox'', JArr [JNum (Finite 1), JNum (Finite 2), JNum (Finite 3), JNum (Finite 4)]),
                  (''limit'', JNull),
                  (''datetime'', JArr [JObj (DateObject (Some 0)) [], JNull])]
   \<and> addFiltersToUrl
        \<lparr>numberToString = (\<lambda>r. if r = 1 then ''1'' else if r = 2 then ''2''
                                 else if r = 3 then ''3'' else if r = 4 then ''4'' else []),
           dateToISOString = (\<lambda>t. if t = 0 then ''1970-01-01T00:00:00.000Z'' else []),
           dateToString = (\<lambda>t. [])\<rparr>
        (\<lambda>v. [])
        (JObj PlainObject [(''href'', JStr ''https://ex.com?x=1&limit=5''), (''rel'', JStr ''search'')])
        [(''bbox'', JArr [JNum (Finite 1), JNum (Finite 2), JNum (Finite 3), JNum (Finite 4)]),
         (''limit'', JNull),
         (''datetime'', JArr [JObj (DateObject (Some 0)) [], JNull])]
      = Some (emptyUri\<lparr>hostname := ''ex.com'', protocol := ''https'', path := ''/'',
                query := [(''x'', [Some ''1'']), (''bbox'', [Some ''1,2,3,4'']),
                          (''datetime'', [Some ''1970-01-01T00:00:00.000Z/..''])]\<rparr>)
   \<and> map_of [(''x'', [Some ''1'']), (''bbox'', [Some ''1,2,3,4'']),
              (''datetime'', [Some ''1970-01-01T00:00:00.000Z/..''])] ''limit'' = None"
proof -
  let ?E = "\<lparr>numberToString = (\<lambda>r. if r = 1 then ''1'' else if r = 2 then ''2''
                                    else if r = 3 then ''3'' else if r = 4 then ''4'' else []),
              dateToISOString = (\<lambda>t. if t = 0 then ''1970-01-01T00:00:00.000Z'' else []),
              dateToString = (\<lambda>t. [])\<rparr>"
  let ?F = "\<lambda>v::jsval. [] :: (string \<times> jsval) list"
  let ?link = "JObj PlainObject [(''href'', JStr ''https://ex.com?x=1&limit=5''), (''rel'', JStr ''search'')]"
  let ?bbox = "JArr [JNum (Finite 1), JNum (Finite 2), JNum (Finite 3), JNum (Finite 4)]"
  let ?dt = "JArr [JObj (DateObject (Some 0)) [], JNull]"
  let ?filters = "[(''bbox'', ?bbox), (''limit'', JNull), (''datetime'', ?dt)]"
  let ?u0 = "emptyUri\<lparr>hostname := ''ex.com'', protocol := ''https'', path := ''/'',
                        query := [(''x'', [Some ''1'']), (''limit'', [Some ''5''])]\<rparr>"
  let ?q1 = "[(''x'', [Some ''1'']), (''bbox'', [Some ''1,2,3,4'']),
              (''datetime'', [Some ''1970-01-01T00:00:00.000Z/..''])]"
  let ?u1 = "emptyUri\<lparr>hostname := ''ex.com'', protocol := ''https'', path := ''/'', query := ?q1\<rparr>"
  have h1: "URI (get ?link ''href'') = Some ?u0" by code_simp
  have h2: "distinctKeys ?filters" by (simp add: distinctKeys_def)
  have h3: "datetimeOk ?filters" by (simp add: datetimeOk_def removesParameter_def)
  have nf: "''limit'' \<notin> formatterKeys ?F ?filters" by (simp add: formatterKeys_def)
  have ev: "addFiltersToUrl ?E ?F ?link ?filters = Some ?u1" by code_simp
  from addFiltersToLink_serialises_filters [OF h1 h2 h3, of ?E ?F]
  obtain url where url: "addFiltersToUrl ?E ?F ?link ?filters = Some url"
    and keys: "\<forall>k v. (k, v) \<in> set ?filters \<and> k \<notin> formatterKeys ?F ?filters \<longrightarrow>
           ((v = JNull \<or> v = JNum NaN \<or> v = JNum PosInf \<or> v = JNum NegInf \<or> v = JStr []
               \<or> v = JArr [] \<or> (\<exists>c. v = JObj c []))
              \<longrightarrow> map_of (query url) k = None)
         \<and> (k = ''datetime'' \<and> \<not> removesParameter v
              \<longrightarrow> (\<exists>vs. v = JArr vs
                    \<and> map_of (query url) k = Some [Some (join ''/'' (map (boundText ?E) vs))]))
         \<and> ((k = ''bbox'' \<or> k = ''collections'' \<or> k = ''ids'') \<and> \<not> removesParameter v \<and> isArray v
              \<longrightarrow> map_of (query url) k = Some [Some (joinWith ?E '','' (elements v))])"
    by (elim exE conjE)
  have "map_of (query url) ''limit'' = None"
    using keys [rule_format, of "''limit''" JNull] nf by simp
  moreover from url ev have "url = ?u1" by (simp only: option.inject)
  ultimately have a: "map_of ?q1 ''limit'' = None" by (simp add: emptyUri_def)
  from h1 h2 h3 ev a show ?thesis by (intro conjI)
qed

text \<open>
  Claim C3 as it is written covers every filter object. A \<open>datetime\<close> value that is a
  non-empty string is not removed and is handed to \<open>formatDatetimeQuery\<close>, which calls
  \<^verbatim>\<open>value.map\<close>: a string has no such method, the call throws, and there is no result in
  which \<open>datetime\<close> would be an interval.
\<close>

theorem addFiltersToLink_datetime_text_throws:
  "URI (get (JObj PlainObject [(''href'', JStr ''https://ex.com/search''), (''rel'', JStr ''search'')]) ''href'')
     = Some (emptyUri\<lparr>hostname := ''ex.com'', protocol := ''https'', path := ''/search''\<rparr>)
   \<and> \<not> removesParameter (JStr ''2020-01-01T00:00:00Z'')
   \<and> formatDatetimeQuery
        \<lparr>numberToString = (\<lambda>r. []), dateToISOString = (\<lambda>t. []), dateToString = (\<lambda>t. [])\<rparr>
        (JStr ''2020-01-01T00:00:00Z'') = None
   \<and> addFiltersToLink
        \<lparr>numberToString = (\<lambda>r. []), dateToISOString = (\<lambda>t. []), dateToString = (\<lambda>t. [])\<rparr>
        (\<lambda>v. [])
        (JObj PlainObject [(''href'', JStr ''https://ex.com/search''), (''rel'', JStr ''search'')])
        [(''datetime'', JStr ''2020-01-01T00:00:00Z'')]
      = None"
  by code_simp





end
